theory Spec2Isabelle
  imports Main "HOL-Library.Word" "HOL-Library.Sublist"
begin

section \<open>JavaScript strings\<close>

text \<open>
  A JavaScript string is a sequence of UTF-16 code units. ASCII literals of the script are
  written \<open>js ''...''\<close>.
\<close>

type_synonym js_string = "16 word list"

definition js :: "string \<Rightarrow> js_string" where
  "js s = map of_char s"

text \<open>\<^verbatim>\<open>s.startsWith(p)\<close>.\<close>

definition startsWith :: "js_string \<Rightarrow> js_string \<Rightarrow> bool" where
  "startsWith s p = prefix p s"

text \<open>
  \<^verbatim>\<open>s.split(sep)\<close> for a separator of one code unit: the pieces between the separators, in
  order; a string without the separator is its own single piece.
\<close>

fun split :: "16 word \<Rightarrow> js_string \<Rightarrow> js_string list" where
  "split sep [] = [[]]"
| "split sep (c # cs) =
     (if c = sep then [] # split sep cs
      else (case split sep cs of
              [] \<Rightarrow> [[c]]
            | p # ps \<Rightarrow> (c # p) # ps))"

text \<open>
  A value read from a property that may be absent: \<open>None\<close> is \<^verbatim>\<open>undefined\<close>. Inside a template
  literal \<^verbatim>\<open>undefined\<close> prints as the text "undefined"; in a condition, \<^verbatim>\<open>undefined\<close> and the
  empty string are falsy.
\<close>

definition template :: "js_string option \<Rightarrow> js_string" where
  "template v = (case v of None \<Rightarrow> js ''undefined'' | Some s \<Rightarrow> s)"

definition truthy :: "js_string option \<Rightarrow> bool" where
  "truthy v = (case v of None \<Rightarrow> False | Some s \<Rightarrow> s \<noteq> [])"

text \<open>
  \<^verbatim>\<open>String.prototype.trim\<close> removes the code units of the ECMAScript productions WhiteSpace
  and LineTerminator from both ends.
\<close>

definition is_white_space :: "16 word \<Rightarrow> bool" where
  "is_white_space c \<longleftrightarrow>
     c \<in> {0x0009, 0x000B, 0x000C, 0x0020, 0x00A0, 0x1680, 0x202F, 0x205F, 0x3000, 0xFEFF}
     \<or> (0x2000 \<le> c \<and> c \<le> 0x200A)"

definition is_line_terminator :: "16 word \<Rightarrow> bool" where
  "is_line_terminator c \<longleftrightarrow> c \<in> {0x000A, 0x000D, 0x2028, 0x2029}"

definition trimmable :: "16 word \<Rightarrow> bool" where
  "trimmable c \<longleftrightarrow> is_white_space c \<or> is_line_terminator c"

definition trim :: "js_string \<Rightarrow> js_string" where
  "trim s = rev (dropWhile trimmable (rev (dropWhile trimmable s)))"

text \<open>The decimal text of a non-negative integer, as a template literal prints a number.\<close>

fun show_nat :: "nat \<Rightarrow> js_string" where
  "show_nat n =
     (if n < 10 then [of_nat (48 + n)]
      else show_nat (n div 10) @ [of_nat (48 + n mod 10)])"

declare show_nat.simps [simp del]


section \<open>The collaborators: file system, esbuild, html-minifier\<close>

datatype error = TypeError | FsError | EsbuildError | HtmlMinifierError

datatype loader_name = LoaderText | LoaderCss

record transform_options =
  transform_loader :: loader_name
  transform_minify :: bool

record minify_options =
  removeComments :: bool
  removeEmptyAttributes :: bool
  collapseWhitespace :: bool

record onload_result =
  result_loader :: loader_name
  contents :: js_string

datatype format_name = Esm | Cjs | Iife

datatype plugin = CSSMinifyPlugin | HTMLMinifyPlugin

text \<open>
  The options object handed to \<^verbatim>\<open>esbuild.build\<close> and \<^verbatim>\<open>esbuild.context\<close>: the properties of
  \<^verbatim>\<open>baseConfig\<close> (\<open>bundling\<close> and \<open>alias_table\<close> are its \<^verbatim>\<open>bundle\<close> and \<^verbatim>\<open>alias\<close>), and the three
  properties a target adds (absent in \<^verbatim>\<open>baseConfig\<close> itself).
\<close>

record build_options =
  entryPoints :: "js_string list"
  bundling :: bool
  minify :: bool
  sourcemap :: bool
  alias_table :: "(js_string \<times> js_string) list"
  loader :: "(js_string \<times> loader_name) list"
  plugins :: "plugin list"
  banner :: js_string
  format :: "format_name option"
  outfile :: "js_string option"
  globalName :: "js_string option"

datatype log_line =
    BuildingAllFormats
  | Watching "js_string option"
  | BuildComplete "js_string option"
  | PrintVersion "js_string option"

text \<open>Every call the script makes to the world outside it, in the order it makes them.\<close>

datatype call =
    ReadFileSync js_string
  | EsbuildTransform js_string transform_options
  | HtmlMinify js_string minify_options
  | EsbuildBuild build_options
  | EsbuildContext build_options
  | ContextWatch build_options
  | ConsoleLog log_line
  | ProcessExit nat

text \<open>
  What the collaborators answer. They are not part of the script: the file system, the
  bundler (\<^verbatim>\<open>esbuild.transform\<close> returning the \<^verbatim>\<open>code\<close> of its result, \<^verbatim>\<open>esbuild.build\<close>,
  \<^verbatim>\<open>esbuild.context\<close> and the \<^verbatim>\<open>watch\<close> of the context it returns) and html-minifier's
  \<^verbatim>\<open>minify\<close> are parameters, each answering with a value or with the error it throws or
  rejects with.
\<close>

record env =
  readFileSync :: "js_string \<Rightarrow> error + js_string"
  esbuild_transform :: "js_string \<Rightarrow> transform_options \<Rightarrow> error + js_string"
  html_minify :: "js_string \<Rightarrow> minify_options \<Rightarrow> error + js_string"
  esbuild_build :: "build_options \<Rightarrow> error + unit"
  esbuild_context :: "build_options \<Rightarrow> error + unit"
  context_watch :: "build_options \<Rightarrow> error + unit"


section \<open>The two load hooks\<close>

text \<open>
  The callback of \<^verbatim>\<open>CSSMinifyPlugin\<close>: read the file, hand its text to \<^verbatim>\<open>esbuild.transform\<close>
  with \<^verbatim>\<open>{ loader: 'css', minify: true }\<close>, return the code as a text module. The result is
  paired with the calls made.
\<close>

definition css_transform_options :: transform_options where
  "css_transform_options = \<lparr>transform_loader = LoaderCss, transform_minify = True\<rparr>"

definition css_onLoad :: "env \<Rightarrow> js_string \<Rightarrow> call list \<times> (error + onload_result)" where
  "css_onLoad e path =
     (case readFileSync e path of
        Inl err \<Rightarrow> ([ReadFileSync path], Inl err)
      | Inr file \<Rightarrow>
          (case esbuild_transform e file css_transform_options of
             Inl err \<Rightarrow>
               ([ReadFileSync path, EsbuildTransform file css_transform_options], Inl err)
           | Inr code \<Rightarrow>
               ([ReadFileSync path, EsbuildTransform file css_transform_options],
                Inr \<lparr>result_loader = LoaderText, contents = code\<rparr>)))"

text \<open>
  The callback of \<^verbatim>\<open>HTMLMinifyPlugin\<close>: read the file, call \<^verbatim>\<open>minify\<close> with the three options
  switched on, trim the result, return it as a text module.
\<close>

definition html_minify_options :: minify_options where
  "html_minify_options =
     \<lparr>removeComments = True, removeEmptyAttributes = True, collapseWhitespace = True\<rparr>"

definition html_onLoad :: "env \<Rightarrow> js_string \<Rightarrow> call list \<times> (error + onload_result)" where
  "html_onLoad e path =
     (case readFileSync e path of
        Inl err \<Rightarrow> ([ReadFileSync path], Inl err)
      | Inr file \<Rightarrow>
          (case html_minify e file html_minify_options of
             Inl err \<Rightarrow> ([ReadFileSync path, HtmlMinify file html_minify_options], Inl err)
           | Inr minified \<Rightarrow>
               ([ReadFileSync path, HtmlMinify file html_minify_options],
                Inr \<lparr>result_loader = LoaderText, contents = trim minified\<rparr>)))"

text \<open>
  The filters \<^verbatim>\<open>/\.css$/\<close> and \<^verbatim>\<open>/\.(html|svg)$/\<close>: without the multiline flag \<^verbatim>\<open>$\<close> is the
  end of the path, so the path ends with the extension.
\<close>

fun plugin_filter :: "plugin \<Rightarrow> js_string \<Rightarrow> bool" where
  "plugin_filter CSSMinifyPlugin path = suffix (js ''.css'') path"
| "plugin_filter HTMLMinifyPlugin path =
     (suffix (js ''.html'') path \<or> suffix (js ''.svg'') path)"

fun plugin_onLoad :: "plugin \<Rightarrow> env \<Rightarrow> js_string \<Rightarrow> call list \<times> (error + onload_result)" where
  "plugin_onLoad CSSMinifyPlugin = css_onLoad"
| "plugin_onLoad HTMLMinifyPlugin = html_onLoad"

text \<open>
  How the bundler uses the hooks of a plugin list: the hooks are tried in the order of the
  list, and the first one whose filter matches the path supplies the module (each hook of
  this script answers or fails, none declines). \<open>None\<close>: no hook matches and the bundler
  loads the file itself.
\<close>

fun run_onLoad ::
  "plugin list \<Rightarrow> env \<Rightarrow> js_string \<Rightarrow> (call list \<times> (error + onload_result)) option" where
  "run_onLoad [] e path = None"
| "run_onLoad (p # ps) e path =
     (if plugin_filter p path then Some (plugin_onLoad p e path) else run_onLoad ps e path)"


section \<open>Command line\<close>

definition isWatch :: "js_string list \<Rightarrow> bool" where
  "isWatch argv \<longleftrightarrow> js ''--watch'' \<in> set argv"

definition isMinify :: "js_string list \<Rightarrow> bool" where
  "isMinify argv \<longleftrightarrow> js ''--minify'' \<in> set argv"

definition targetArg :: "js_string list \<Rightarrow> js_string option" where
  "targetArg argv = find (\<lambda>arg. startsWith arg (js ''--target='')) argv"

text \<open>
  \<^verbatim>\<open>targetArg ? targetArg.split('=')[1] : 'umd'\<close>. A found argument starts with
  \<^verbatim>\<open>--target=\<close>, so it is truthy; element 1 of the split is \<^verbatim>\<open>undefined\<close> when the split has
  one piece only.
\<close>

definition targetFormat :: "js_string list \<Rightarrow> js_string option" where
  "targetFormat argv =
     (case targetArg argv of
        None \<Rightarrow> Some (js ''umd'')
      | Some arg \<Rightarrow>
          (case split (of_char CHR ''='') arg of
             _ # name # _ \<Rightarrow> Some name
           | _ \<Rightarrow> None))"


section \<open>Project metadata and the banner\<close>

text \<open>
  The properties of \<^verbatim>\<open>package.json\<close> the script reads. A property is absent (\<open>None\<close>) or a
  string; \<^verbatim>\<open>repository\<close> and \<^verbatim>\<open>originalRepository\<close> are absent or objects whose \<^verbatim>\<open>url\<close> is
  absent or a string.
\<close>

record repo =
  url :: "js_string option"

record package_json =
  version :: "js_string option"
  license :: "js_string option"
  author :: "js_string option"
  repository :: "repo option"
  modifiedByCompany :: "js_string option"
  modifiedByAuthor :: "js_string option"
  originalRepository :: "repo option"

text \<open>
  The line \<^verbatim>\<open>Modified by ...\<close> of the banner, empty unless \<^verbatim>\<open>modifiedByCompany\<close> is truthy.
  \<open>year\<close> is what \<^verbatim>\<open>new Date().getFullYear()\<close> returns there.
\<close>

definition modified_by :: "package_json \<Rightarrow> nat \<Rightarrow> js_string" where
  "modified_by pkg year =
     (if truthy (modifiedByCompany pkg)
      then js '' * Modified by '' @ template (modifiedByCompany pkg) @ js '', '' @ show_nat year
           @ (if truthy (modifiedByAuthor pkg)
              then js '' ('' @ template (modifiedByAuthor pkg) @ js '')''
              else [])
      else [])"

text \<open>\<^verbatim>\<open>packageJson.originalRepository?.url || packageJson.repository.url\<close>.\<close>

definition original_repository_url :: "package_json \<Rightarrow> repo \<Rightarrow> js_string option" where
  "original_repository_url pkg r =
     (let u = (case originalRepository pkg of None \<Rightarrow> None | Some orig \<Rightarrow> url orig)
      in if truthy u then u else url r)"

text \<open>
  The template literal \<^verbatim>\<open>banner.js\<close>. Reading \<^verbatim>\<open>packageJson.repository.url\<close> throws a TypeError
  when \<^verbatim>\<open>repository\<close> is absent. The clock is read once in the \<^verbatim>\<open>Modified by\<close> line
  (\<open>year_modified\<close>) and once in the \<^verbatim>\<open>Original\<close> line (\<open>year_original\<close>).
\<close>

definition banner_js :: "package_json \<Rightarrow> nat \<Rightarrow> nat \<Rightarrow> error + js_string" where
  \<open>banner_js pkg year_modified year_original =
     (case repository pkg of
        None \<Rightarrow> Inl TypeError
      | Some r \<Rightarrow>
          Inr (js ''/*!\<newline>* Accessibility Widget v'' @ template (version pkg)
               @ js ''\<newline>* Based on "Sienna Accessibility Widget" by bennyluk (MIT License)\<newline>''
               @ modified_by pkg year_modified
               @ js ''\<newline>* License: '' @ template (license pkg)
               @ js ''\<newline>* Repository: '' @ template (url r)
               @ js ''\<newline>* \<newline>* Original: (c) '' @ show_nat year_original
               @ js '' '' @ template (author pkg)
               @ js ''\<newline>* Original Repository: '' @ template (original_repository_url pkg r)
               @ js ''\<newline>*/''))\<close>

definition baseConfig :: "js_string list \<Rightarrow> package_json \<Rightarrow> nat \<Rightarrow> nat \<Rightarrow> error + build_options" where
  "baseConfig argv pkg year_modified year_original =
     (case banner_js pkg year_modified year_original of
        Inl err \<Rightarrow> Inl err
      | Inr text \<Rightarrow>
          Inr \<lparr>entryPoints = [js ''./src/entry.ts''],
               bundling = True,
               minify = isMinify argv,
               sourcemap = True,
               alias_table = [(js ''@'', js ''./src'')],
               loader = [(js ''.html'', LoaderText), (js ''.svg'', LoaderText)],
               plugins = [CSSMinifyPlugin, HTMLMinifyPlugin],
               banner = text,
               format = None,
               outfile = None,
               globalName = None\<rparr>)"


section \<open>Build targets\<close>

record target =
  target_format :: format_name
  target_outfile :: js_string
  target_globalName :: "js_string option"

text \<open>The object \<^verbatim>\<open>targets\<close>, its properties in the order they are written.\<close>

definition targets :: "package_json \<Rightarrow> (js_string \<times> target) list" where
  "targets pkg =
     [(js ''esm'',
       \<lparr>target_format = Esm,
        target_outfile = js ''dist/accessibility-widget.esm.js'',
        target_globalName = None\<rparr>),
      (js ''cjs'',
       \<lparr>target_format = Cjs,
        target_outfile = js ''dist/accessibility-widget.cjs.js'',
        target_globalName = None\<rparr>),
      (js ''umd'',
       \<lparr>target_format = Iife,
        target_outfile = js ''dist/accessibility-widget.umd.js'',
        target_globalName = Some (js ''AccessibilityWidget'')\<rparr>),
      (js ''umd-versioned'',
       \<lparr>target_format = Iife,
        target_outfile = js ''dist/accessibility-widget-'' @ template (version pkg) @ js ''.umd.js'',
        target_globalName = Some (js ''AccessibilityWidget'')\<rparr>)]"

text \<open>
  Reading a property of an object literal: an own property if there is one, otherwise what
  the object inherits from \<^verbatim>\<open>Object.prototype\<close> (a function or the prototype object itself,
  none of which has an enumerable own property or an \<^verbatim>\<open>outfile\<close>), otherwise \<^verbatim>\<open>undefined\<close>.
\<close>

datatype property = Undefined | Own target | Inherited

definition object_prototype_keys :: "js_string list" where
  "object_prototype_keys =
     [js ''constructor'', js ''hasOwnProperty'', js ''isPrototypeOf'',
      js ''propertyIsEnumerable'', js ''toLocaleString'', js ''toString'', js ''valueOf'',
      js ''__proto__'', js ''__defineGetter__'', js ''__defineSetter__'',
      js ''__lookupGetter__'', js ''__lookupSetter__'']"

definition get_property :: "(js_string \<times> target) list \<Rightarrow> js_string \<Rightarrow> property" where
  "get_property obj key =
     (case map_of obj key of
        Some t \<Rightarrow> Own t
      | None \<Rightarrow> if key \<in> set object_prototype_keys then Inherited else Undefined)"

text \<open>\<^verbatim>\<open>targets[targetFormat]\<close>; the key \<^verbatim>\<open>undefined\<close> is the property name "undefined".\<close>

definition buildTarget :: "js_string list \<Rightarrow> package_json \<Rightarrow> property" where
  "buildTarget argv pkg = get_property (targets pkg) (template (targetFormat argv))"

text \<open>
  \<^verbatim>\<open>{ ...baseConfig, ...target }\<close>: the enumerable own properties of the target replace those
  of the base configuration; spreading \<^verbatim>\<open>undefined\<close> or an inherited value adds nothing.
\<close>

fun spread :: "build_options \<Rightarrow> property \<Rightarrow> build_options" where
  "spread cfg (Own t) =
     cfg\<lparr>format := Some (target_format t),
         outfile := Some (target_outfile t),
         globalName := (case target_globalName t of
                          None \<Rightarrow> globalName cfg
                        | Some g \<Rightarrow> Some g)\<rparr>"
| "spread cfg Undefined = cfg"
| "spread cfg Inherited = cfg"

text \<open>\<^verbatim>\<open>buildTarget.outfile\<close>: a TypeError on \<^verbatim>\<open>undefined\<close>.\<close>

fun property_outfile :: "property \<Rightarrow> error + js_string option" where
  "property_outfile Undefined = Inl TypeError"
| "property_outfile (Own t) = Inr (Some (target_outfile t))"
| "property_outfile Inherited = Inr None"


section \<open>The build\<close>

text \<open>
  \<^verbatim>\<open>Promise.all\<close>: fulfilled when every promise is, rejected as soon as one is. Which
  rejection it reports depends on timing; the script drops the reason, and the model
  reports the first of the list.
\<close>

fun promise_all :: "(error + unit) list \<Rightarrow> error + unit" where
  "promise_all [] = Inr ()"
| "promise_all (Inl err # rs) = Inl err"
| "promise_all (Inr _ # rs) = promise_all rs"

text \<open>The branch \<^verbatim>\<open>if (isWatch)\<close> of \<^verbatim>\<open>build\<close>.\<close>

definition build_watch :: "build_options \<Rightarrow> property \<Rightarrow> env \<Rightarrow> call list \<times> (error + unit)" where
  "build_watch cfg bt e =
     (let opts = spread cfg bt in
      case esbuild_context e opts of
        Inl err \<Rightarrow> ([EsbuildContext opts], Inl err)
      | Inr _ \<Rightarrow>
          (case context_watch e opts of
             Inl err \<Rightarrow> ([EsbuildContext opts, ContextWatch opts], Inl err)
           | Inr _ \<Rightarrow>
               (case property_outfile bt of
                  Inl err \<Rightarrow> ([EsbuildContext opts, ContextWatch opts], Inl err)
                | Inr out \<Rightarrow>
                    ([EsbuildContext opts, ContextWatch opts, ConsoleLog (Watching out)],
                     Inr ()))))"

text \<open>
  The \<^verbatim>\<open>else\<close> branch: every entry of \<^verbatim>\<open>targets\<close> but \<^verbatim>\<open>umd-versioned\<close> is handed to
  \<^verbatim>\<open>esbuild.build\<close> (all calls are made before any result is awaited), then the results are
  awaited together.
\<close>

definition targetsToBuild :: "package_json \<Rightarrow> (js_string \<times> target) list" where
  "targetsToBuild pkg = filter (\<lambda>(key, _). key \<noteq> js ''umd-versioned'') (targets pkg)"

definition build_all ::
  "build_options \<Rightarrow> property \<Rightarrow> package_json \<Rightarrow> env \<Rightarrow> call list \<times> (error + unit)" where
  "build_all cfg bt pkg e =
     (let requests = map (\<lambda>(_, t). spread cfg (Own t)) (targetsToBuild pkg);
          calls = ConsoleLog BuildingAllFormats # map EsbuildBuild requests
      in case promise_all (map (esbuild_build e) requests) of
           Inl err \<Rightarrow> (calls, Inl err)
         | Inr _ \<Rightarrow>
             (case property_outfile bt of
                Inl err \<Rightarrow> (calls, Inl err)
              | Inr out \<Rightarrow>
                  (calls @ [ConsoleLog (BuildComplete out), ConsoleLog (PrintVersion (version pkg))],
                   Inr ())))"

definition build ::
  "js_string list \<Rightarrow> package_json \<Rightarrow> build_options \<Rightarrow> env \<Rightarrow> call list \<times> (error + unit)" where
  "build argv pkg cfg e =
     (if isWatch argv then build_watch cfg (buildTarget argv pkg) e
      else build_all cfg (buildTarget argv pkg) pkg e)"

text \<open>
  The script from top to bottom. An exception while the module is evaluated (the banner) is
  uncaught and ends the process with status 1. \<^verbatim>\<open>build().catch(() => process.exit(1))\<close>: a
  rejected build exits with 1; after a fulfilled one-shot build nothing is left to run and
  the process ends with status 0; a fulfilled watch build leaves the process running.
\<close>

datatype outcome = Exited nat | Running

definition main ::
  "js_string list \<Rightarrow> package_json \<Rightarrow> nat \<Rightarrow> nat \<Rightarrow> env \<Rightarrow> call list \<times> outcome" where
  "main argv pkg year_modified year_original e =
     (case baseConfig argv pkg year_modified year_original of
        Inl err \<Rightarrow> ([], Exited 1)
      | Inr cfg \<Rightarrow>
          (case build argv pkg cfg e of
             (calls, Inl err) \<Rightarrow> (calls @ [ProcessExit 1], Exited 1)
           | (calls, Inr _) \<Rightarrow> (calls, if isWatch argv then Running else Exited 0)))"


section \<open>Reading the calls, and sample inputs\<close>

text \<open>The options objects handed to \<^verbatim>\<open>esbuild.build\<close>, in the order of the calls.\<close>

fun build_requests :: "call list \<Rightarrow> build_options list" where
  "build_requests [] = []"
| "build_requests (c # cs) =
     (case c of EsbuildBuild opts \<Rightarrow> opts # build_requests cs | _ \<Rightarrow> build_requests cs)"

text \<open>The options objects handed to \<^verbatim>\<open>esbuild.context\<close>.\<close>

fun context_requests :: "call list \<Rightarrow> build_options list" where
  "context_requests [] = []"
| "context_requests (c # cs) =
     (case c of EsbuildContext opts \<Rightarrow> opts # context_requests cs | _ \<Rightarrow> context_requests cs)"

text \<open>The contexts (named by their options) on which \<^verbatim>\<open>watch\<close> is called.\<close>

fun watch_requests :: "call list \<Rightarrow> build_options list" where
  "watch_requests [] = []"
| "watch_requests (c # cs) =
     (case c of ContextWatch opts \<Rightarrow> opts # watch_requests cs | _ \<Rightarrow> watch_requests cs)"

text \<open>The part of an options object that a target contributes.\<close>

definition target_of ::
  "build_options \<Rightarrow> format_name option \<times> js_string option \<times> js_string option" where
  "target_of opts = (format opts, outfile opts, globalName opts)"

text \<open>The metadata fixture: version 1.2.3, license MIT, author A, and a repository URL.\<close>

definition fixture_package :: package_json where
  "fixture_package =
     \<lparr>version = Some (js ''1.2.3''),
      license = Some (js ''MIT''),
      author = Some (js ''A''),
      repository = Some \<lparr>url = Some (js ''https://example.com/repo'')\<rparr>,
      modifiedByCompany = None,
      modifiedByAuthor = None,
      originalRepository = None\<rparr>"

text \<open>
  Command lines: a plain one-shot run, one with the versioned target named, three watch runs,
  a minifying one-shot run and a one-shot run with an unknown target name.
\<close>

definition sample_argv :: "js_string list" where
  "sample_argv = [js ''node'', js ''esbuild.config.js'']"

definition versioned_argv :: "js_string list" where
  "versioned_argv = [js ''node'', js ''esbuild.config.js'', js ''--target=umd-versioned'']"

definition watch_argv :: "js_string list" where
  "watch_argv = [js ''node'', js ''esbuild.config.js'', js ''--watch'', js ''--target=esm'']"

definition unknown_argv :: "js_string list" where
  "unknown_argv = [js ''node'', js ''esbuild.config.js'', js ''--watch'', js ''--target=es6'']"

definition inherited_argv :: "js_string list" where
  "inherited_argv =
     [js ''node'', js ''esbuild.config.js'', js ''--watch'', js ''--target=toString'']"

definition minify_argv :: "js_string list" where
  "minify_argv = [js ''node'', js ''esbuild.config.js'', js ''--minify'']"

definition unknown_one_shot_argv :: "js_string list" where
  "unknown_one_shot_argv = [js ''node'', js ''esbuild.config.js'', js ''--target=es6'']"

text \<open>
  A small world to run the script in: five files, and collaborators that always answer.
  The stylesheet transform here drops white space when asked to minify and returns the text
  as it is otherwise; the markup minifier here returns its
  input (as html-minifier does on the text of \<^verbatim>\<open>notice.html\<close>: it keeps a comment that starts
  with \<^verbatim>\<open>!\<close>, and an empty \<^verbatim>\<open>alt\<close> is not among the attributes it drops when empty).
\<close>

definition sample_env :: env where
  \<open>sample_env =
     \<lparr>readFileSync = (\<lambda>path.
        if path = js ''widget.css'' then Inr (js ''a { }'')
        else if path = js ''menu.css'' then Inr (js ''a { }'')
        else if path = js ''panel.html'' then Inr (js '' <b>x</b>\<newline>'')
        else if path = js ''icon.svg'' then Inr (js '' <b>x</b>\<newline>'')
        else if path = js ''notice.html'' then Inr (js ''<!--! keep --><img alt="">'')
        else Inl FsError),
      esbuild_transform = (\<lambda>file opts.
        Inr (if transform_minify opts then filter (\<lambda>c. \<not> trimmable c) file else file)),
      html_minify = (\<lambda>file opts. Inr file),
      esbuild_build = (\<lambda>opts. Inr ()),
      esbuild_context = (\<lambda>opts. Inr ()),
      context_watch = (\<lambda>opts. Inr ())\<rparr>\<close>

text \<open>The same world with a bundler that fails on the CommonJS output.\<close>

definition failing_env :: env where
  "failing_env =
     sample_env\<lparr>esbuild_build :=
       (\<lambda>opts. if format opts = Some Cjs then Inl EsbuildError else Inr ())\<rparr>"


section \<open>Strings\<close>

lemma trim_last: "trim s \<noteq> [] \<Longrightarrow> \<not> trimmable (last (trim s))"
  unfolding trim_def by (simp add: last_rev hd_dropWhile)

lemma trim_hd:
  assumes "trim s \<noteq> []"
  shows "\<not> trimmable (hd (trim s))"
proof -
  define t where "t = dropWhile trimmable s"
  define u where "u = dropWhile trimmable (rev t)"
  have tr: "trim s = rev u"
    by (simp add: trim_def t_def u_def)
  with assms have u: "u \<noteq> []"
    by simp
  have "rev t = takeWhile trimmable (rev t) @ u"
    by (simp add: u_def)
  then have "last (rev t) = last u"
    using u by (metis last_appendR)
  then have "hd t = last u"
    by (simp add: last_rev)
  moreover have "t \<noteq> []"
    using u by (auto simp: u_def)
  then have "\<not> trimmable (hd t)"
    unfolding t_def by (rule hd_dropWhile)
  ultimately show ?thesis
    by (simp add: tr hd_rev)
qed

lemma trim_sublist: "sublist (trim s) s"
proof -
  have "sublist (rev (dropWhile trimmable (rev (dropWhile trimmable s)))) (dropWhile trimmable s)"
    by (simp add: sublist_rev_left)
  also have "sublist (dropWhile trimmable s) s"
    by simp
  finally show ?thesis
    by (simp add: trim_def)
qed

lemma split_not_Nil: "split sep s \<noteq> []"
  by (induction s) (auto split: list.splits)

lemma hd_split: "hd (split sep s) = takeWhile (\<lambda>c. c \<noteq> sep) s"
  using split_not_Nil [of sep] by (induction s) (auto split: list.splits)

lemma split_after_prefix:
  "sep \<notin> set p \<Longrightarrow> split sep (p @ sep # rest) = p # split sep rest"
  by (induction p) (auto split: list.splits)

lemma css_path_is_not_markup:
  assumes "suffix (js ''.css'') path"
  shows "\<not> suffix (js ''.html'') path" and "\<not> suffix (js ''.svg'') path"
proof -
  have a: "\<not> suffix (js ''.css'') (js ''.html'')" "\<not> suffix (js ''.html'') (js ''.css'')"
    by (simp_all add: js_def suffix_to_prefix)
  have b: "\<not> suffix (js ''.css'') (js ''.svg'')" "\<not> suffix (js ''.svg'') (js ''.css'')"
    by (simp_all add: js_def suffix_to_prefix)
  show "\<not> suffix (js ''.html'') path"
    using assms a suffix_same_cases by blast
  show "\<not> suffix (js ''.svg'') path"
    using assms b suffix_same_cases by blast
qed


section \<open>Command line and configuration\<close>

lemma targetFormat_flag:
  assumes "targetArg argv = Some (js ''--target='' @ rest)"
  shows "targetFormat argv = Some (takeWhile (\<lambda>c. c \<noteq> of_char CHR ''='') rest)"
proof -
  have "js ''--target='' @ rest = js ''--target'' @ of_char CHR ''='' # rest"
    by (simp add: js_def)
  moreover have "of_char CHR ''='' \<notin> set (js ''--target'')"
    by (simp add: js_def)
  ultimately have "split (of_char CHR ''='') (js ''--target='' @ rest)
      = js ''--target'' # split (of_char CHR ''='') rest"
    using split_after_prefix by metis
  moreover obtain x xs where "split (of_char CHR ''='') rest = x # xs"
    using split_not_Nil [of "of_char CHR ''=''" rest] by (cases "split (of_char CHR ''='') rest") auto
  moreover from this have "x = takeWhile (\<lambda>c. c \<noteq> of_char CHR ''='') rest"
    using hd_split [of "of_char CHR ''=''" rest] by simp
  ultimately show ?thesis
    using assms by (simp add: targetFormat_def)
qed

lemma targetFormat_default: "targetArg argv = None \<Longrightarrow> targetFormat argv = Some (js ''umd'')"
  by (simp add: targetFormat_def)

lemma isWatch_samples:
  "\<not> isWatch sample_argv" "\<not> isWatch versioned_argv" "isWatch watch_argv"
  "isWatch unknown_argv" "isWatch inherited_argv"
  by (simp_all add: isWatch_def sample_argv_def versioned_argv_def watch_argv_def
      unknown_argv_def inherited_argv_def js_def)

lemma targetArg_samples:
  "targetArg sample_argv = None"
  "targetArg versioned_argv = Some (js ''--target='' @ js ''umd-versioned'')"
  "targetArg watch_argv = Some (js ''--target='' @ js ''esm'')"
  "targetArg unknown_argv = Some (js ''--target='' @ js ''es6'')"
  "targetArg inherited_argv = Some (js ''--target='' @ js ''toString'')"
  by (simp_all add: targetArg_def startsWith_def sample_argv_def versioned_argv_def
      watch_argv_def unknown_argv_def inherited_argv_def js_def)

lemma baseConfig_plugins:
  "baseConfig argv pkg ym yo = Inr cfg \<Longrightarrow> plugins cfg = [CSSMinifyPlugin, HTMLMinifyPlugin]"
  by (auto simp: baseConfig_def split: sum.splits)

lemma baseConfig_minify:
  "baseConfig argv pkg ym yo = Inr cfg \<Longrightarrow> minify cfg = isMinify argv"
  by (auto simp: baseConfig_def split: sum.splits)

lemma baseConfig_no_target:
  assumes "baseConfig argv pkg ym yo = Inr cfg"
  shows "format cfg = None" and "outfile cfg = None" and "globalName cfg = None"
  using assms by (auto simp: baseConfig_def split: sum.splits)

lemma baseConfig_defined:
  "repository pkg = Some r \<Longrightarrow> \<exists>cfg. baseConfig argv pkg ym yo = Inr cfg"
  by (simp add: baseConfig_def banner_js_def)

lemma baseConfig_fixture: "\<exists>cfg. baseConfig argv fixture_package ym yo = Inr cfg"
  by (rule baseConfig_defined) (simp add: fixture_package_def)

lemma baseConfig_fails_alike:
  "baseConfig argv pkg ym yo = Inl err \<Longrightarrow> baseConfig argv' pkg ym yo = Inl err"
  by (auto simp: baseConfig_def split: sum.splits)

lemma main_not_configured:
  "baseConfig argv pkg ym yo = Inl err \<Longrightarrow> main argv pkg ym yo e = ([], Exited 1)"
  by (simp add: main_def)


section \<open>The calls of a build\<close>

lemma build_requests_append: "build_requests (xs @ ys) = build_requests xs @ build_requests ys"
  by (induction xs) (auto split: call.splits)

lemma context_requests_append:
  "context_requests (xs @ ys) = context_requests xs @ context_requests ys"
  by (induction xs) (auto split: call.splits)

lemma watch_requests_append:
  "watch_requests (xs @ ys) = watch_requests xs @ watch_requests ys"
  by (induction xs) (auto split: call.splits)

lemma build_requests_map: "build_requests (map (EsbuildBuild \<circ> f) xs) = map f xs"
  by (induction xs) auto

lemma context_requests_map: "context_requests (map (EsbuildBuild \<circ> f) xs) = []"
  by (induction xs) auto

lemma promise_all_fulfilled: "promise_all rs = Inr () \<longleftrightarrow> (\<forall>r \<in> set rs. r = Inr ())"
  by (induction rs rule: promise_all.induct) auto

lemma targetsToBuild_eq: "targetsToBuild pkg = take 3 (targets pkg)"
  by (simp add: targetsToBuild_def targets_def js_def)

lemma build_all_requests:
  "build_requests (fst (build_all cfg bt pkg e))
   = map (\<lambda>(_, t). spread cfg (Own t)) (targetsToBuild pkg)"
  by (simp add: build_all_def Let_def build_requests_append build_requests_map
      del: spread.simps split: sum.splits)

lemma build_all_contexts: "context_requests (fst (build_all cfg bt pkg e)) = []"
  by (simp add: build_all_def Let_def context_requests_append context_requests_map
      del: spread.simps split: sum.splits)

lemma build_all_result:
  "snd (build_all cfg bt pkg e) = Inr ()
   \<longleftrightarrow> (\<forall>opts \<in> set (map (\<lambda>(_, t). spread cfg (Own t)) (targetsToBuild pkg)).
          esbuild_build e opts = Inr ())
       \<and> bt \<noteq> Undefined"
proof (cases "promise_all (map (esbuild_build e)
                (map (\<lambda>(_, t). spread cfg (Own t)) (targetsToBuild pkg)))")
  case (Inl err)
  then have "\<not> (\<forall>opts \<in> set (map (\<lambda>(_, t). spread cfg (Own t)) (targetsToBuild pkg)).
          esbuild_build e opts = Inr ())"
    using promise_all_fulfilled [of "map (esbuild_build e)
                (map (\<lambda>(_, t). spread cfg (Own t)) (targetsToBuild pkg))"]
    by auto
  moreover have "snd (build_all cfg bt pkg e) = Inl err"
    using Inl by (simp add: build_all_def Let_def)
  ultimately show ?thesis by simp
next
  case (Inr u)
  then have "\<forall>opts \<in> set (map (\<lambda>(_, t). spread cfg (Own t)) (targetsToBuild pkg)).
          esbuild_build e opts = Inr ()"
    using promise_all_fulfilled [of "map (esbuild_build e)
                (map (\<lambda>(_, t). spread cfg (Own t)) (targetsToBuild pkg))"]
    by auto
  moreover have "snd (build_all cfg bt pkg e) = Inr () \<longleftrightarrow> bt \<noteq> Undefined"
    using Inr by (cases bt) (simp_all add: build_all_def Let_def)
  ultimately show ?thesis by blast
qed

lemma main_one_shot_calls:
  assumes "\<not> isWatch argv" and "baseConfig argv pkg ym yo = Inr cfg"
  shows "build_requests (fst (main argv pkg ym yo e))
         = build_requests (fst (build_all cfg (buildTarget argv pkg) pkg e))"
    and "context_requests (fst (main argv pkg ym yo e)) = []"
  using assms
  by (auto simp: main_def build_def build_requests_append context_requests_append
      build_all_contexts [of cfg "buildTarget argv pkg" pkg e, symmetric]
      split: prod.splits sum.splits)

lemma main_one_shot_outcome:
  assumes "\<not> isWatch argv" and "baseConfig argv pkg ym yo = Inr cfg"
  shows "snd (main argv pkg ym yo e)
         = (case snd (build_all cfg (buildTarget argv pkg) pkg e) of
              Inl _ \<Rightarrow> Exited 1 | Inr _ \<Rightarrow> Exited 0)"
  using assms by (auto simp: main_def build_def split: prod.splits sum.splits)

text \<open>
  A one-shot run whose \<^verbatim>\<open>--target=\<close> names nothing fails after its builds: the last log line
  reads \<^verbatim>\<open>buildTarget.outfile\<close>.
\<close>

lemma one_shot_unknown_target_exits_with_1:
  assumes "\<not> isWatch argv" and "buildTarget argv pkg = Undefined"
  shows "snd (main argv pkg ym yo e) = Exited 1"
proof (cases "baseConfig argv pkg ym yo")
  case (Inl err)
  then show ?thesis
    by (simp add: main_not_configured)
next
  case (Inr cfg)
  have "snd (build_all cfg (buildTarget argv pkg) pkg e) \<noteq> Inr ()"
    using assms(2) build_all_result [of cfg "buildTarget argv pkg" pkg e] by simp
  then show ?thesis
    using assms(1) Inr
    by (cases "snd (build_all cfg (buildTarget argv pkg) pkg e)")
       (simp_all add: main_one_shot_outcome)
qed

lemma requested_targets:
  assumes "globalName cfg = None"
  shows "map target_of (map (\<lambda>(_, t). spread cfg (Own t)) (targetsToBuild pkg))
         = [(Some Esm, Some (js ''dist/accessibility-widget.esm.js''), None),
            (Some Cjs, Some (js ''dist/accessibility-widget.cjs.js''), None),
            (Some Iife, Some (js ''dist/accessibility-widget.umd.js''),
             Some (js ''AccessibilityWidget''))]"
  using assms by (simp add: targetsToBuild_eq targets_def target_of_def)

lemma versioned_outfile_differs:
  "js ''dist/accessibility-widget-'' @ v @ js ''.umd.js'' \<noteq> js ''dist/accessibility-widget.esm.js''"
  "js ''dist/accessibility-widget-'' @ v @ js ''.umd.js'' \<noteq> js ''dist/accessibility-widget.cjs.js''"
  "js ''dist/accessibility-widget-'' @ v @ js ''.umd.js'' \<noteq> js ''dist/accessibility-widget.umd.js''"
  by (simp_all add: js_def)

lemma requested_outfiles:
  "map outfile (map (\<lambda>(_, t). spread cfg (Own t)) (targetsToBuild pkg))
   = [Some (js ''dist/accessibility-widget.esm.js''),
      Some (js ''dist/accessibility-widget.cjs.js''),
      Some (js ''dist/accessibility-widget.umd.js'')]"
  by (simp add: targetsToBuild_eq targets_def)

lemma requests_distinct:
  "distinct (map (\<lambda>(_, t). spread cfg (Own t)) (targetsToBuild pkg))"
proof -
  have "distinct (map outfile (map (\<lambda>(_, t). spread cfg (Own t)) (targetsToBuild pkg)))"
    unfolding requested_outfiles by (simp add: js_def)
  then show ?thesis
    using distinct_map by blast
qed

lemma build_watch_calls:
  "context_requests (fst (build_watch cfg bt e)) = [spread cfg bt]"
  "build_requests (fst (build_watch cfg bt e)) = []"
  "watch_requests (fst (build_watch cfg bt e))
   = (case esbuild_context e (spread cfg bt) of Inl _ \<Rightarrow> [] | Inr _ \<Rightarrow> [spread cfg bt])"
  by (simp_all add: build_watch_def Let_def del: spread.simps split: sum.splits)

lemma build_watch_undefined: "\<exists>err. snd (build_watch cfg Undefined e) = Inl err"
  by (simp add: build_watch_def split: sum.splits)

lemma main_watch_calls:
  assumes "isWatch argv" and "baseConfig argv pkg ym yo = Inr cfg"
  shows "context_requests (fst (main argv pkg ym yo e))
         = context_requests (fst (build_watch cfg (buildTarget argv pkg) e))"
    and "build_requests (fst (main argv pkg ym yo e)) = []"
    and "watch_requests (fst (main argv pkg ym yo e))
         = watch_requests (fst (build_watch cfg (buildTarget argv pkg) e))"
  using assms
  by (auto simp: main_def build_def build_requests_append context_requests_append
      watch_requests_append
      build_watch_calls(2) [of cfg "buildTarget argv pkg" e, symmetric]
      split: prod.splits sum.splits)

lemma main_watch_outcome:
  assumes "isWatch argv" and "baseConfig argv pkg ym yo = Inr cfg"
  shows "snd (main argv pkg ym yo e)
         = (case snd (build_watch cfg (buildTarget argv pkg) e) of
              Inl _ \<Rightarrow> Exited 1 | Inr _ \<Rightarrow> Running)"
  using assms by (auto simp: main_def build_def split: prod.splits sum.splits)



lemma spread_keeps_base:
  "minify (spread cfg bt) = minify cfg"
  "plugins (spread cfg bt) = plugins cfg"
  "banner (spread cfg bt) = banner cfg"
  by (cases bt; simp)+

lemma main_requests:
  assumes "baseConfig argv pkg ym yo = Inr cfg"
  shows "\<forall>opts \<in> set (build_requests (fst (main argv pkg ym yo e))
                        @ context_requests (fst (main argv pkg ym yo e))).
            \<exists>bt. opts = spread cfg bt"
    and "build_requests (fst (main argv pkg ym yo e))
         @ context_requests (fst (main argv pkg ym yo e)) \<noteq> []"
proof -
  show "\<forall>opts \<in> set (build_requests (fst (main argv pkg ym yo e))
                        @ context_requests (fst (main argv pkg ym yo e))).
            \<exists>bt. opts = spread cfg bt"
  proof (cases "isWatch argv")
    case True
    then show ?thesis
      using assms
      by (auto simp: main_watch_calls build_watch_calls simp del: spread.simps)
  next
    case False
    then show ?thesis
      using assms
      by (auto simp: main_one_shot_calls build_all_requests simp del: spread.simps)
  qed
  show "build_requests (fst (main argv pkg ym yo e))
         @ context_requests (fst (main argv pkg ym yo e)) \<noteq> []"
  proof (cases "isWatch argv")
    case True
    then show ?thesis
      using assms by (simp add: main_watch_calls build_watch_calls del: spread.simps)
  next
    case False
    then show ?thesis
      using assms
      by (simp add: main_one_shot_calls build_all_requests targetsToBuild_eq targets_def
          del: spread.simps)
  qed
qed

lemma three_equal:
  "length xs = 3 \<Longrightarrow> \<forall>x \<in> set xs. x = v \<Longrightarrow> xs = [v, v, v]"
  by (cases xs; cases "tl xs"; cases "tl (tl xs)") auto

lemma one_shot_three_requests:
  assumes "\<not> isWatch argv" and "baseConfig argv pkg ym yo = Inr cfg"
  shows "length (build_requests (fst (main argv pkg ym yo e))) = 3"
  using assms
  by (simp add: main_one_shot_calls build_all_requests targetsToBuild_eq targets_def)

lemma samples_more:
  "\<not> isWatch minify_argv" "\<not> isWatch unknown_one_shot_argv"
  "js ''--minify'' \<in> set minify_argv" "js ''--minify'' \<notin> set sample_argv"
  "targetArg unknown_one_shot_argv = Some (js ''--target='' @ js ''es6'')"
  by (simp_all add: isWatch_def targetArg_def startsWith_def minify_argv_def
      unknown_one_shot_argv_def sample_argv_def js_def)

lemma buildTarget_default:
  "targetArg argv = None \<Longrightarrow> buildTarget argv pkg \<noteq> Undefined"
  by (simp add: targetFormat_default buildTarget_def template_def get_property_def targets_def
      js_def)


section \<open>The load hooks\<close>

text \<open>
  Claim C1. For a path that ends in \<^verbatim>\<open>.css\<close>, whose file can be read and whose text the
  bundler's transform accepts, the hook that the configuration installs answers with exactly
  the code that \<^verbatim>\<open>esbuild.transform\<close> returns for that text under
  \<^verbatim>\<open>{ loader: 'css', minify: true }\<close>, and tags it with the \<^verbatim>\<open>text\<close> loader.
\<close>

theorem css_hook_returns_engine_minified_text:
  assumes "baseConfig argv pkg ym yo = Inr cfg"
    and "suffix (js ''.css'') path"
    and "readFileSync e path = Inr file"
    and "esbuild_transform e file \<lparr>transform_loader = LoaderCss, transform_minify = True\<rparr> = Inr code"
  shows "map_option snd (run_onLoad (plugins cfg) e path)
         = Some (Inr \<lparr>result_loader = LoaderText, contents = code\<rparr>)"
  using assms by (simp add: baseConfig_plugins css_onLoad_def css_transform_options_def)

theorem css_hook_returns_engine_minified_text_witness:
  "suffix (js ''.css'') (js ''widget.css'')
   \<and> readFileSync sample_env (js ''widget.css'') = Inr (js ''a { }'')
   \<and> esbuild_transform sample_env (js ''a { }'')
         \<lparr>transform_loader = LoaderCss, transform_minify = True\<rparr> = Inr (js ''a{}'')
   \<and> (\<exists>cfg. baseConfig [] fixture_package 2026 2026 = Inr cfg
         \<and> map_option snd (run_onLoad (plugins cfg) sample_env (js ''widget.css''))
           = Some (Inr \<lparr>result_loader = LoaderText, contents = js ''a{}''\<rparr>))"
proof -
  obtain cfg where c: "baseConfig [] fixture_package 2026 2026 = Inr cfg"
    using baseConfig_fixture by blast
  have s: "suffix (js ''.css'') (js ''widget.css'')"
    by (simp add: js_def suffix_to_prefix)
  have r: "readFileSync sample_env (js ''widget.css'') = Inr (js ''a { }'')"
    by (simp add: sample_env_def)
  have t: "esbuild_transform sample_env (js ''a { }'')
         \<lparr>transform_loader = LoaderCss, transform_minify = True\<rparr> = Inr (js ''a{}'')"
    by (simp add: sample_env_def js_def trimmable_def is_white_space_def is_line_terminator_def)
  from css_hook_returns_engine_minified_text [OF c s r t] c s r t show ?thesis
    by blast
qed

text \<open>
  Claim C2, as stated, promises that the content returned for a markup file contains no comment
  marker and no empty attribute. The hook itself removes neither: it returns what \<^verbatim>\<open>minify\<close>
  answers, trimmed. For \<^verbatim>\<open>notice.html\<close> of the sample world the answer of \<^verbatim>\<open>minify\<close> is the text
  itself, and the content returned has a comment marker and an empty attribute.
\<close>

theorem markup_hook_comment_marker_counterexample:
  \<open>suffix (js ''.html'') (js ''notice.html'')
   \<and> snd (html_onLoad sample_env (js ''notice.html''))
       = Inr \<lparr>result_loader = LoaderText, contents = js ''<!--! keep --><img alt="">''\<rparr>
   \<and> sublist (js ''<!--'') (js ''<!--! keep --><img alt="">'')
   \<and> sublist (js ''alt=""'') (js ''<!--! keep --><img alt="">'')\<close>
proof -
  have a: "suffix (js ''.html'') (js ''notice.html'')"
    by (simp add: js_def suffix_to_prefix)
  have t: \<open>trim (js ''<!--! keep --><img alt="">'') = js ''<!--! keep --><img alt="">''\<close>
    by (simp add: trim_def js_def trimmable_def is_white_space_def is_line_terminator_def)
  have b: \<open>snd (html_onLoad sample_env (js ''notice.html''))
       = Inr \<lparr>result_loader = LoaderText, contents = js ''<!--! keep --><img alt="">''\<rparr>\<close>
    unfolding html_onLoad_def by (simp add: sample_env_def t) (simp add: js_def)
  have \<open>js ''<!--! keep --><img alt="">'' = js ''<!--'' @ js ''! keep --><img alt="">''\<close>
    by (simp add: js_def)
  then have c: \<open>sublist (js ''<!--'') (js ''<!--! keep --><img alt="">'')\<close>
    by (metis sublist_append_rightI)
  have \<open>js ''<!--! keep --><img alt="">'' = js ''<!--! keep --><img '' @ js ''alt=""'' @ js ''>''\<close>
    by (simp add: js_def)
  then have d: \<open>sublist (js ''alt=""'') (js ''<!--! keep --><img alt="">'')\<close>
    by (metis sublist_appendI)
  from a b c d show ?thesis by blast
qed

text \<open>
  Claim C2, amended. For a path that ends in \<^verbatim>\<open>.html\<close> or \<^verbatim>\<open>.svg\<close>, whose file can be read and
  whose text \<^verbatim>\<open>minify\<close> accepts, the hook that the configuration installs returns, tagged with
  the \<^verbatim>\<open>text\<close> loader, what \<^verbatim>\<open>minify\<close> answers for that text with \<^verbatim>\<open>removeComments\<close>,
  \<^verbatim>\<open>removeEmptyAttributes\<close> and \<^verbatim>\<open>collapseWhitespace\<close> switched on, trimmed. The content neither
  starts nor ends with white space, and every piece of text that occurs in it (a comment marker,
  an empty attribute) occurs in the answer of \<^verbatim>\<open>minify\<close> already.
\<close>

theorem markup_hook_trims_minifier_output:
  assumes "baseConfig argv pkg ym yo = Inr cfg"
    and "suffix (js ''.html'') path \<or> suffix (js ''.svg'') path"
    and "readFileSync e path = Inr file"
    and "html_minify e file
           \<lparr>removeComments = True, removeEmptyAttributes = True, collapseWhitespace = True\<rparr>
         = Inr minified"
  shows "map_option snd (run_onLoad (plugins cfg) e path)
         = Some (Inr \<lparr>result_loader = LoaderText, contents = trim minified\<rparr>)
       \<and> (trim minified = []
          \<or> (\<not> trimmable (hd (trim minified)) \<and> \<not> trimmable (last (trim minified))))
       \<and> (\<forall>s. sublist s (trim minified) \<longrightarrow> sublist s minified)"
proof -
  have "\<not> suffix (js ''.css'') path"
    using assms(2) css_path_is_not_markup by blast
  then have "map_option snd (run_onLoad (plugins cfg) e path)
         = Some (Inr \<lparr>result_loader = LoaderText, contents = trim minified\<rparr>)"
    using assms by (simp add: baseConfig_plugins html_onLoad_def html_minify_options_def)
  moreover have "trim minified = []
          \<or> (\<not> trimmable (hd (trim minified)) \<and> \<not> trimmable (last (trim minified)))"
    using trim_hd trim_last by blast
  moreover have "\<forall>s. sublist s (trim minified) \<longrightarrow> sublist s minified"
    using trim_sublist sublist_order.order_trans by blast
  ultimately show ?thesis
    by blast
qed

theorem markup_hook_trims_minifier_output_witness:
  "(suffix (js ''.html'') (js ''icon.svg'') \<or> suffix (js ''.svg'') (js ''icon.svg''))
   \<and> readFileSync sample_env (js ''icon.svg'') = Inr (js '' <b>x</b>\<newline>'')
   \<and> html_minify sample_env (js '' <b>x</b>\<newline>'')
        \<lparr>removeComments = True, removeEmptyAttributes = True, collapseWhitespace = True\<rparr>
       = Inr (js '' <b>x</b>\<newline>'')
   \<and> trim (js '' <b>x</b>\<newline>'') = js ''<b>x</b>''
   \<and> (\<exists>cfg. baseConfig sample_argv fixture_package 2026 2026 = Inr cfg
        \<and> map_option snd (run_onLoad (plugins cfg) sample_env (js ''icon.svg''))
          = Some (Inr \<lparr>result_loader = LoaderText, contents = js ''<b>x</b>''\<rparr>))
   \<and> \<not> trimmable (hd (js ''<b>x</b>'')) \<and> \<not> trimmable (last (js ''<b>x</b>''))
   \<and> sublist (js ''b>x'') (js ''<b>x</b>'')
   \<and> sublist (js ''b>x'') (js '' <b>x</b>\<newline>'')"
proof -
  obtain cfg where c: "baseConfig sample_argv fixture_package 2026 2026 = Inr cfg"
    using baseConfig_fixture by blast
  have s: "suffix (js ''.html'') (js ''icon.svg'') \<or> suffix (js ''.svg'') (js ''icon.svg'')"
    by (simp add: js_def suffix_to_prefix)
  have r: "readFileSync sample_env (js ''icon.svg'') = Inr (js '' <b>x</b>\<newline>'')"
    by (simp add: sample_env_def) (simp add: js_def)
  have m: "html_minify sample_env (js '' <b>x</b>\<newline>'')
        \<lparr>removeComments = True, removeEmptyAttributes = True, collapseWhitespace = True\<rparr>
       = Inr (js '' <b>x</b>\<newline>'')"
    by (simp add: sample_env_def)
  have t: "trim (js '' <b>x</b>\<newline>'') = js ''<b>x</b>''"
    by (simp add: trim_def js_def trimmable_def is_white_space_def is_line_terminator_def)
  have ne: "js ''<b>x</b>'' \<noteq> []"
    by (simp add: js_def)
  have "js ''<b>x</b>'' = js ''<'' @ js ''b>x'' @ js ''</b>''"
    by (simp add: js_def)
  then have sub: "sublist (js ''b>x'') (js ''<b>x</b>'')"
    by (metis sublist_appendI)
  from markup_hook_trims_minifier_output [OF c s r m] c s r m t ne sub show ?thesis
    by (simp only: t) blast
qed

text \<open>
  Claim C8. Each hook is a function of the text of the file at its path: two calls that read the
  same text (on any two paths, in any two states of the file system, with the same minifiers)
  return the same module. The only calls a hook makes are the read of that path and the call of
  the minifier on what was read; it writes nothing, logs nothing and starts no build.
\<close>

theorem asset_hooks_depend_only_on_file_content:
  assumes "readFileSync e path = readFileSync e' path'"
    and "esbuild_transform e = esbuild_transform e'"
    and "html_minify e = html_minify e'"
  shows "snd (css_onLoad e path) = snd (css_onLoad e' path')
       \<and> snd (html_onLoad e path) = snd (html_onLoad e' path')
       \<and> fst (css_onLoad e path)
         = ReadFileSync path
           # (case readFileSync e path of
                Inl _ \<Rightarrow> []
              | Inr file \<Rightarrow> [EsbuildTransform file css_transform_options])
       \<and> fst (html_onLoad e path)
         = ReadFileSync path
           # (case readFileSync e path of
                Inl _ \<Rightarrow> []
              | Inr file \<Rightarrow> [HtmlMinify file html_minify_options])"
  using assms by (simp add: css_onLoad_def html_onLoad_def split: sum.splits)

theorem asset_hooks_depend_only_on_file_content_witness:
  "readFileSync sample_env (js ''widget.css'') = readFileSync sample_env (js ''menu.css'')
   \<and> snd (css_onLoad sample_env (js ''widget.css'')) = snd (css_onLoad sample_env (js ''menu.css''))
   \<and> snd (css_onLoad sample_env (js ''widget.css''))
     = Inr \<lparr>result_loader = LoaderText, contents = js ''a{}''\<rparr>
   \<and> fst (css_onLoad sample_env (js ''widget.css''))
     = [ReadFileSync (js ''widget.css''), EsbuildTransform (js ''a { }'') css_transform_options]"
proof -
  have r: "readFileSync sample_env (js ''widget.css'') = Inr (js ''a { }'')"
    by (simp add: sample_env_def)
  have r': "readFileSync sample_env (js ''menu.css'') = Inr (js ''a { }'')"
    by (simp add: sample_env_def js_def)
  have t: "esbuild_transform sample_env (js ''a { }'') css_transform_options = Inr (js ''a{}'')"
    by (simp add: sample_env_def css_transform_options_def js_def trimmable_def
        is_white_space_def is_line_terminator_def)
  have v: "snd (css_onLoad sample_env (js ''widget.css''))
     = Inr \<lparr>result_loader = LoaderText, contents = js ''a{}''\<rparr>"
    by (simp add: css_onLoad_def r t)
  have h: "readFileSync sample_env (js ''widget.css'') = readFileSync sample_env (js ''menu.css'')"
    by (simp only: r r')
  note inst = asset_hooks_depend_only_on_file_content [OF h refl refl]
  have eq: "snd (css_onLoad sample_env (js ''widget.css''))
      = snd (css_onLoad sample_env (js ''menu.css''))"
    using inst by blast
  have "fst (css_onLoad sample_env (js ''widget.css''))
      = ReadFileSync (js ''widget.css'')
        # (case readFileSync sample_env (js ''widget.css'') of
             Inl _ \<Rightarrow> []
           | Inr file \<Rightarrow> [EsbuildTransform file css_transform_options])"
    using inst by blast
  then have calls: "fst (css_onLoad sample_env (js ''widget.css''))
     = [ReadFileSync (js ''widget.css''), EsbuildTransform (js ''a { }'') css_transform_options]"
    by (simp only: r sum.case)
  from h eq v calls show ?thesis
    by blast
qed


section \<open>The banner\<close>

text \<open>The template literal itself, at the fixture.\<close>

lemma banner_js_of_fixture:
  "\<exists>b. banner_js (fixture_package\<lparr>modifiedByCompany := company, modifiedByAuthor := person,
                                   originalRepository := original\<rparr>) ym yo = Inr b
       \<and> sublist (js ''Accessibility Widget v1.2.3'') b
       \<and> sublist (js ''License: MIT'') b"
proof -
  let ?pkg = "fixture_package\<lparr>modifiedByCompany := company, modifiedByAuthor := person,
                               originalRepository := original\<rparr>"
  define tail where
    "tail = js ''\<newline>* Repository: '' @ js ''https://example.com/repo''
               @ js ''\<newline>* \<newline>* Original: (c) '' @ show_nat yo
               @ js '' '' @ js ''A''
               @ js ''\<newline>* Original Repository: ''
               @ template (original_repository_url ?pkg
                    \<lparr>url = Some (js ''https://example.com/repo'')\<rparr>)
               @ js ''\<newline>*/''"
  define middle where
    \<open>middle = js ''\<newline>* Based on "Sienna Accessibility Widget" by bennyluk (MIT License)\<newline>''
               @ modified_by ?pkg ym @ js ''\<newline>* ''\<close>
  obtain b where b: "banner_js ?pkg ym yo = Inr b"
    by (auto simp: banner_js_def fixture_package_def)
  have v: "b = js ''/*!\<newline>* '' @ js ''Accessibility Widget v1.2.3''
               @ (middle @ js ''License: MIT'' @ tail)"
    using b
    by (auto simp: banner_js_def fixture_package_def template_def js_def tail_def middle_def)
  have l: "b = (js ''/*!\<newline>* '' @ js ''Accessibility Widget v1.2.3'' @ middle)
               @ js ''License: MIT'' @ tail"
    by (simp add: v)
  have "sublist (js ''Accessibility Widget v1.2.3'') b"
    by (subst v) (rule sublist_appendI)
  moreover have "sublist (js ''License: MIT'') b"
    by (subst l) (rule sublist_appendI)
  ultimately show ?thesis
    using b by blast
qed

lemma baseConfig_banner:
  "baseConfig argv pkg ym yo = Inr cfg \<Longrightarrow> banner_js pkg ym yo = Inr (banner cfg)"
  by (auto simp: baseConfig_def split: sum.splits)

text \<open>
  Claim C5. For the metadata fixture (version 1.2.3, license MIT, author A, repository URL
  \<^verbatim>\<open>https://example.com/repo\<close>), whatever the optional properties, the year and the command
  line, the configuration is built and its \<^verbatim>\<open>banner\<close> contains the texts
  \<^verbatim>\<open>Accessibility Widget v1.2.3\<close> and \<^verbatim>\<open>License: MIT\<close>; so does the banner of every options object
  the run hands to \<^verbatim>\<open>esbuild.build\<close> or \<^verbatim>\<open>esbuild.context\<close>, and there is at least one.
\<close>

theorem banner_of_fixture_names_version_and_license:
  "\<exists>cfg. baseConfig argv (fixture_package\<lparr>modifiedByCompany := company,
              modifiedByAuthor := person, originalRepository := original\<rparr>) ym yo = Inr cfg
     \<and> sublist (js ''Accessibility Widget v1.2.3'') (banner cfg)
     \<and> sublist (js ''License: MIT'') (banner cfg)
     \<and> build_requests (fst (main argv (fixture_package\<lparr>modifiedByCompany := company,
              modifiedByAuthor := person, originalRepository := original\<rparr>) ym yo e))
       @ context_requests (fst (main argv (fixture_package\<lparr>modifiedByCompany := company,
              modifiedByAuthor := person, originalRepository := original\<rparr>) ym yo e)) \<noteq> []
     \<and> (\<forall>opts \<in> set (build_requests (fst (main argv (fixture_package\<lparr>modifiedByCompany := company,
              modifiedByAuthor := person, originalRepository := original\<rparr>) ym yo e))
          @ context_requests (fst (main argv (fixture_package\<lparr>modifiedByCompany := company,
              modifiedByAuthor := person, originalRepository := original\<rparr>) ym yo e))).
          sublist (js ''Accessibility Widget v1.2.3'') (banner opts)
          \<and> sublist (js ''License: MIT'') (banner opts))"
proof -
  let ?pkg = "fixture_package\<lparr>modifiedByCompany := company, modifiedByAuthor := person,
                               originalRepository := original\<rparr>"
  have "repository ?pkg = Some \<lparr>url = Some (js ''https://example.com/repo'')\<rparr>"
    by (simp add: fixture_package_def)
  then obtain cfg where c: "baseConfig argv ?pkg ym yo = Inr cfg"
    using baseConfig_defined by blast
  then have "banner_js ?pkg ym yo = Inr (banner cfg)"
    by (rule baseConfig_banner)
  then have s: "sublist (js ''Accessibility Widget v1.2.3'') (banner cfg)"
      "sublist (js ''License: MIT'') (banner cfg)"
    using banner_js_of_fixture [where company = company and person = person
        and original = original and ym = ym and yo = yo] by auto
  have n: "build_requests (fst (main argv ?pkg ym yo e))
       @ context_requests (fst (main argv ?pkg ym yo e)) \<noteq> []"
    using c by (rule main_requests)
  have "\<forall>opts \<in> set (build_requests (fst (main argv ?pkg ym yo e))
          @ context_requests (fst (main argv ?pkg ym yo e))). banner opts = banner cfg"
    using main_requests(1) [OF c, of e] spread_keeps_base(3) by fastforce
  then have a: "\<forall>opts \<in> set (build_requests (fst (main argv ?pkg ym yo e))
          @ context_requests (fst (main argv ?pkg ym yo e))).
          sublist (js ''Accessibility Widget v1.2.3'') (banner opts)
          \<and> sublist (js ''License: MIT'') (banner opts)"
    using s by simp
  from c s n a show ?thesis
    by blast
qed

theorem banner_of_fixture_names_version_and_license_witness:
  "(\<exists>cfg. baseConfig sample_argv fixture_package 2026 2026 = Inr cfg
      \<and> sublist (js ''Accessibility Widget v1.2.3'') (banner cfg)
      \<and> sublist (js ''License: MIT'') (banner cfg))
   \<and> map (\<lambda>opts. sublist (js ''Accessibility Widget v1.2.3'') (banner opts)
                  \<and> sublist (js ''License: MIT'') (banner opts))
        (build_requests (fst (main sample_argv fixture_package 2026 2026 sample_env)))
     = [True, True, True]"
proof -
  have f: "fixture_package\<lparr>modifiedByCompany := None, modifiedByAuthor := None,
             originalRepository := None\<rparr> = fixture_package"
    by (simp add: fixture_package_def)
  note inst = banner_of_fixture_names_version_and_license
    [where argv = sample_argv and company = None and person = None and original = None
      and ym = 2026 and yo = 2026 and e = sample_env, unfolded f]
  then obtain cfg where c: "baseConfig sample_argv fixture_package 2026 2026 = Inr cfg"
    and s: "sublist (js ''Accessibility Widget v1.2.3'') (banner cfg)"
           "sublist (js ''License: MIT'') (banner cfg)"
    and a: "\<forall>opts \<in> set (build_requests (fst (main sample_argv fixture_package 2026 2026 sample_env))
          @ context_requests (fst (main sample_argv fixture_package 2026 2026 sample_env))).
          sublist (js ''Accessibility Widget v1.2.3'') (banner opts)
          \<and> sublist (js ''License: MIT'') (banner opts)"
    by blast
  have l: "length (map (\<lambda>opts. sublist (js ''Accessibility Widget v1.2.3'') (banner opts)
                  \<and> sublist (js ''License: MIT'') (banner opts))
        (build_requests (fst (main sample_argv fixture_package 2026 2026 sample_env)))) = 3"
    using isWatch_samples(1) c by (simp add: one_shot_three_requests)
  have "\<forall>x \<in> set (map (\<lambda>opts. sublist (js ''Accessibility Widget v1.2.3'') (banner opts)
                  \<and> sublist (js ''License: MIT'') (banner opts))
        (build_requests (fst (main sample_argv fixture_package 2026 2026 sample_env)))). x = True"
    using a by auto
  with l have "map (\<lambda>opts. sublist (js ''Accessibility Widget v1.2.3'') (banner opts)
                  \<and> sublist (js ''License: MIT'') (banner opts))
        (build_requests (fst (main sample_argv fixture_package 2026 2026 sample_env)))
     = [True, True, True]"
    by (rule three_equal)
  with c s show ?thesis
    by blast
qed


section \<open>One-shot builds\<close>

text \<open>
  Claim C3, as stated, promises exit status 0 when the bundling of every target succeeds. A
  one-shot run with \<^verbatim>\<open>--target=es6\<close> has three successful builds and exits with status 1: after
  the builds the log line reads \<^verbatim>\<open>buildTarget.outfile\<close>, and \<^verbatim>\<open>buildTarget\<close> is \<^verbatim>\<open>undefined\<close>.
\<close>

theorem one_shot_unknown_target_counterexample:
  "\<not> isWatch unknown_one_shot_argv
   \<and> map (esbuild_build sample_env)
        (build_requests (fst (main unknown_one_shot_argv fixture_package 2026 2026 sample_env)))
     = [Inr (), Inr (), Inr ()]
   \<and> snd (main unknown_one_shot_argv fixture_package 2026 2026 sample_env) = Exited 1"
proof -
  note w = samples_more(2)
  obtain cfg where c: "baseConfig unknown_one_shot_argv fixture_package 2026 2026 = Inr cfg"
    using baseConfig_fixture by blast
  have "length (map (esbuild_build sample_env)
        (build_requests (fst (main unknown_one_shot_argv fixture_package 2026 2026 sample_env))))
      = 3"
    using w c by (simp add: one_shot_three_requests)
  moreover have "\<forall>x \<in> set (map (esbuild_build sample_env)
        (build_requests (fst (main unknown_one_shot_argv fixture_package 2026 2026 sample_env)))).
        x = Inr ()"
    by (simp add: sample_env_def)
  ultimately have m: "map (esbuild_build sample_env)
        (build_requests (fst (main unknown_one_shot_argv fixture_package 2026 2026 sample_env)))
     = [Inr (), Inr (), Inr ()]"
    by (rule three_equal)
  have "js ''es6'' = takeWhile (\<lambda>c. c \<noteq> of_char CHR ''='') (js ''es6'')"
    by (simp add: js_def)
  then have tf: "targetFormat unknown_one_shot_argv = Some (js ''es6'')"
    using targetFormat_flag [OF samples_more(5)] by simp
  have "map_of (targets fixture_package) (js ''es6'') = None"
    by (simp add: targets_def js_def)
  moreover have "js ''es6'' \<notin> set object_prototype_keys"
    by (simp add: object_prototype_keys_def js_def)
  ultimately have "buildTarget unknown_one_shot_argv fixture_package = Undefined"
    by (simp add: buildTarget_def tf template_def get_property_def)
  with w have x: "snd (main unknown_one_shot_argv fixture_package 2026 2026 sample_env) = Exited 1"
    by (rule one_shot_unknown_target_exits_with_1)
  from w m x show ?thesis
    by blast
qed

text \<open>
  Claim C3, amended. In a one-shot run, if \<^verbatim>\<open>esbuild.build\<close> fails for any of the requested
  targets, the process exits with status 1. The status is 0 exactly when every requested build
  succeeds and \<^verbatim>\<open>buildTarget\<close> is not \<^verbatim>\<open>undefined\<close> (it never is without a \<^verbatim>\<open>--target=\<close> argument),
  and 1 otherwise. Whatever fails, each of the three targets is requested exactly once: nothing
  is retried.
\<close>

theorem one_shot_exit_status:
  assumes "\<not> isWatch argv" and "baseConfig argv pkg ym yo = Inr cfg"
  shows "((\<exists>opts \<in> set (build_requests (fst (main argv pkg ym yo e))).
             esbuild_build e opts \<noteq> Inr ())
          \<longrightarrow> snd (main argv pkg ym yo e) = Exited 1)
       \<and> (snd (main argv pkg ym yo e) = Exited 0
          \<longleftrightarrow> (\<forall>opts \<in> set (build_requests (fst (main argv pkg ym yo e))).
                 esbuild_build e opts = Inr ())
              \<and> buildTarget argv pkg \<noteq> Undefined)
       \<and> (snd (main argv pkg ym yo e) = Exited 0 \<or> snd (main argv pkg ym yo e) = Exited 1)
       \<and> (targetArg argv = None \<longrightarrow> buildTarget argv pkg \<noteq> Undefined)
       \<and> build_requests (fst (main argv pkg ym yo e))
         = map (\<lambda>(_, t). spread cfg (Own t)) (targetsToBuild pkg)
       \<and> length (build_requests (fst (main argv pkg ym yo e))) = 3
       \<and> distinct (build_requests (fst (main argv pkg ym yo e)))"
proof -
  let ?reqs = "map (\<lambda>(_, t). spread cfg (Own t)) (targetsToBuild pkg)"
  let ?r = "snd (build_all cfg (buildTarget argv pkg) pkg e)"
  have reqs: "build_requests (fst (main argv pkg ym yo e)) = ?reqs"
    using assms by (simp add: main_one_shot_calls build_all_requests)
  have out: "snd (main argv pkg ym yo e) = (case ?r of Inl _ \<Rightarrow> Exited 1 | Inr _ \<Rightarrow> Exited 0)"
    using assms by (rule main_one_shot_outcome)
  have ok: "?r = Inr () \<longleftrightarrow>
      (\<forall>opts \<in> set ?reqs. esbuild_build e opts = Inr ()) \<and> buildTarget argv pkg \<noteq> Undefined"
    by (rule build_all_result)
  have c2: "snd (main argv pkg ym yo e) = Exited 0
          \<longleftrightarrow> (\<forall>opts \<in> set (build_requests (fst (main argv pkg ym yo e))).
                 esbuild_build e opts = Inr ())
              \<and> buildTarget argv pkg \<noteq> Undefined"
  proof -
    have "snd (main argv pkg ym yo e) = Exited 0 \<longleftrightarrow> ?r = Inr ()"
      by (cases ?r) (simp_all add: out)
    then show ?thesis
      unfolding reqs using ok by blast
  qed
  have c3: "snd (main argv pkg ym yo e) = Exited 0 \<or> snd (main argv pkg ym yo e) = Exited 1"
    by (cases ?r) (simp_all add: out)
  have c1: "(\<exists>opts \<in> set (build_requests (fst (main argv pkg ym yo e))).
             esbuild_build e opts \<noteq> Inr ())
          \<longrightarrow> snd (main argv pkg ym yo e) = Exited 1"
    using c2 c3 by blast
  have c4: "targetArg argv = None \<longrightarrow> buildTarget argv pkg \<noteq> Undefined"
    using buildTarget_default by blast
  have c6: "length (build_requests (fst (main argv pkg ym yo e))) = 3"
    by (simp add: reqs targetsToBuild_eq targets_def)
  have c7: "distinct (build_requests (fst (main argv pkg ym yo e)))"
    by (simp only: reqs requests_distinct)
  from c1 c2 c3 c4 reqs c6 c7 show ?thesis
    by blast
qed

theorem one_shot_exit_status_witness:
  "\<not> isWatch sample_argv
   \<and> (\<exists>cfg. baseConfig sample_argv fixture_package 2026 2026 = Inr cfg)
   \<and> (\<exists>opts \<in> set (build_requests (fst (main sample_argv fixture_package 2026 2026 failing_env))).
         esbuild_build failing_env opts \<noteq> Inr ())
   \<and> snd (main sample_argv fixture_package 2026 2026 failing_env) = Exited 1
   \<and> targetArg sample_argv = None
   \<and> map (esbuild_build sample_env)
        (build_requests (fst (main sample_argv fixture_package 2026 2026 sample_env)))
     = [Inr (), Inr (), Inr ()]
   \<and> snd (main sample_argv fixture_package 2026 2026 sample_env) = Exited 0"
proof -
  obtain cfg where c: "baseConfig sample_argv fixture_package 2026 2026 = Inr cfg"
    using baseConfig_fixture by blast
  note w = isWatch_samples(1)
  note inst = one_shot_exit_status [OF w c, of failing_env]
  have reqs: "build_requests (fst (main sample_argv fixture_package 2026 2026 failing_env))
              = map (\<lambda>(_, t). spread cfg (Own t)) (targetsToBuild fixture_package)"
    using inst by blast
  have "esbuild_build failing_env
          (spread cfg (Own \<lparr>target_format = Cjs,
                            target_outfile = js ''dist/accessibility-widget.cjs.js'',
                            target_globalName = None\<rparr>)) \<noteq> Inr ()"
    by (simp add: failing_env_def)
  moreover have "spread cfg (Own \<lparr>target_format = Cjs,
                            target_outfile = js ''dist/accessibility-widget.cjs.js'',
                            target_globalName = None\<rparr>)
      \<in> set (build_requests (fst (main sample_argv fixture_package 2026 2026 failing_env)))"
    unfolding reqs by (simp add: targetsToBuild_eq targets_def del: spread.simps)
  ultimately have f: "\<exists>opts \<in> set (build_requests
        (fst (main sample_argv fixture_package 2026 2026 failing_env))).
         esbuild_build failing_env opts \<noteq> Inr ()"
    by blast
  with inst have x: "snd (main sample_argv fixture_package 2026 2026 failing_env) = Exited 1"
    by blast
  note inst' = one_shot_exit_status [OF w c, of sample_env]
  have t: "targetArg sample_argv = None"
    by (rule targetArg_samples)
  have a: "\<forall>opts \<in> set (build_requests
        (fst (main sample_argv fixture_package 2026 2026 sample_env))).
         esbuild_build sample_env opts = Inr ()"
    by (simp add: sample_env_def)
  with t inst' have y: "snd (main sample_argv fixture_package 2026 2026 sample_env) = Exited 0"
    by blast
  have "length (map (esbuild_build sample_env)
        (build_requests (fst (main sample_argv fixture_package 2026 2026 sample_env)))) = 3"
    using w c by (simp add: one_shot_three_requests)
  moreover have "\<forall>x \<in> set (map (esbuild_build sample_env)
        (build_requests (fst (main sample_argv fixture_package 2026 2026 sample_env)))).
        x = Inr ()"
    using a by simp
  ultimately have m: "map (esbuild_build sample_env)
        (build_requests (fst (main sample_argv fixture_package 2026 2026 sample_env)))
     = [Inr (), Inr (), Inr ()]"
    by (rule three_equal)
  from w c f x t m y show ?thesis
    by blast
qed

text \<open>
  Claim C4. A one-shot run without a \<^verbatim>\<open>--target=\<close> argument hands exactly three options objects
  to \<^verbatim>\<open>esbuild.build\<close>: the ESM, the CJS and the UMD target with their output files, in this
  order. It creates no watch context, and the output file of the versioned target is not among
  those requested.
\<close>

theorem one_shot_default_builds_three_targets:
  assumes "\<not> isWatch argv" and "targetArg argv = None"
    and "baseConfig argv pkg ym yo = Inr cfg"
  shows "map target_of (build_requests (fst (main argv pkg ym yo e)))
         = [(Some Esm, Some (js ''dist/accessibility-widget.esm.js''), None),
            (Some Cjs, Some (js ''dist/accessibility-widget.cjs.js''), None),
            (Some Iife, Some (js ''dist/accessibility-widget.umd.js''),
             Some (js ''AccessibilityWidget''))]
       \<and> context_requests (fst (main argv pkg ym yo e)) = []
       \<and> Some (js ''dist/accessibility-widget-'' @ template (version pkg) @ js ''.umd.js'')
           \<notin> set (map outfile (build_requests (fst (main argv pkg ym yo e))))"
proof -
  have reqs: "build_requests (fst (main argv pkg ym yo e))
              = map (\<lambda>(_, t). spread cfg (Own t)) (targetsToBuild pkg)"
    using assms by (simp add: main_one_shot_calls build_all_requests)
  have "globalName cfg = None"
    using assms(3) by (rule baseConfig_no_target)
  then have a: "map target_of (build_requests (fst (main argv pkg ym yo e)))
         = [(Some Esm, Some (js ''dist/accessibility-widget.esm.js''), None),
            (Some Cjs, Some (js ''dist/accessibility-widget.cjs.js''), None),
            (Some Iife, Some (js ''dist/accessibility-widget.umd.js''),
             Some (js ''AccessibilityWidget''))]"
    unfolding reqs by (rule requested_targets)
  have b: "context_requests (fst (main argv pkg ym yo e)) = []"
    using assms(1,3) by (rule main_one_shot_calls)
  have c: "Some (js ''dist/accessibility-widget-'' @ template (version pkg) @ js ''.umd.js'')
           \<notin> set (map outfile (build_requests (fst (main argv pkg ym yo e))))"
    unfolding reqs requested_outfiles using versioned_outfile_differs by simp
  from a b c show ?thesis by blast
qed

theorem one_shot_default_builds_three_targets_witness:
  "\<not> isWatch sample_argv \<and> targetArg sample_argv = None
   \<and> (\<exists>cfg. baseConfig sample_argv fixture_package 2026 2026 = Inr cfg)
   \<and> map outfile (build_requests (fst (main sample_argv fixture_package 2026 2026 sample_env)))
     = [Some (js ''dist/accessibility-widget.esm.js''),
        Some (js ''dist/accessibility-widget.cjs.js''),
        Some (js ''dist/accessibility-widget.umd.js'')]
   \<and> Some (js ''dist/accessibility-widget-1.2.3.umd.js'')
       \<notin> set (map outfile (build_requests (fst (main sample_argv fixture_package 2026 2026 sample_env))))"
proof -
  obtain cfg where c: "baseConfig sample_argv fixture_package 2026 2026 = Inr cfg"
    using baseConfig_fixture by blast
  note inst = one_shot_default_builds_three_targets
    [OF isWatch_samples(1) targetArg_samples(1) c, of sample_env]
  have "map (fst \<circ> snd) (map target_of
          (build_requests (fst (main sample_argv fixture_package 2026 2026 sample_env))))
        = [Some (js ''dist/accessibility-widget.esm.js''),
        Some (js ''dist/accessibility-widget.cjs.js''),
        Some (js ''dist/accessibility-widget.umd.js'')]"
    using inst by simp
  then have a: "map outfile (build_requests (fst (main sample_argv fixture_package 2026 2026 sample_env)))
     = [Some (js ''dist/accessibility-widget.esm.js''),
        Some (js ''dist/accessibility-widget.cjs.js''),
        Some (js ''dist/accessibility-widget.umd.js'')]"
    by (simp add: target_of_def comp_def)
  have v: "js ''dist/accessibility-widget-'' @ template (version fixture_package) @ js ''.umd.js''
        = js ''dist/accessibility-widget-1.2.3.umd.js''"
    by (simp add: fixture_package_def template_def js_def)
  have b: "Some (js ''dist/accessibility-widget-1.2.3.umd.js'')
       \<notin> set (map outfile (build_requests (fst (main sample_argv fixture_package 2026 2026 sample_env))))"
    using inst unfolding v by blast
  from isWatch_samples(1) targetArg_samples(1) c a b show ?thesis
    by blast
qed

text \<open>
  Claim C6. The targets requested by a one-shot run do not depend on the command line: any two
  one-shot runs request the same targets, and the output file of the versioned target is never
  among them, also when \<^verbatim>\<open>--target=umd-versioned\<close> is given.
\<close>

theorem one_shot_targets_independent_of_target_flag:
  assumes "\<not> isWatch argv" and "\<not> isWatch argv'"
  shows "map target_of (build_requests (fst (main argv pkg ym yo e)))
         = map target_of (build_requests (fst (main argv' pkg ym yo e')))
       \<and> Some (js ''dist/accessibility-widget-'' @ template (version pkg) @ js ''.umd.js'')
           \<notin> set (map outfile (build_requests (fst (main argv pkg ym yo e))))"
proof (cases "baseConfig argv pkg ym yo")
  case (Inl err)
  then show ?thesis
    using baseConfig_fails_alike [OF Inl, of argv'] by (simp add: main_not_configured)
next
  case (Inr cfg)
  then obtain cfg' where cfg': "baseConfig argv' pkg ym yo = Inr cfg'"
    by (auto simp: baseConfig_def split: sum.splits)
  have reqs: "build_requests (fst (main argv pkg ym yo e))
              = map (\<lambda>(_, t). spread cfg (Own t)) (targetsToBuild pkg)"
    using assms(1) Inr by (simp add: main_one_shot_calls build_all_requests)
  have reqs': "build_requests (fst (main argv' pkg ym yo e'))
              = map (\<lambda>(_, t). spread cfg' (Own t)) (targetsToBuild pkg)"
    using assms(2) cfg' by (simp add: main_one_shot_calls build_all_requests)
  have g: "globalName cfg = None" "globalName cfg' = None"
    using Inr cfg' by (auto dest: baseConfig_no_target)
  have a: "map target_of (build_requests (fst (main argv pkg ym yo e)))
         = map target_of (build_requests (fst (main argv' pkg ym yo e')))"
    unfolding reqs reqs' by (simp only: requested_targets [OF g(1)] requested_targets [OF g(2)])
  have c: "Some (js ''dist/accessibility-widget-'' @ template (version pkg) @ js ''.umd.js'')
           \<notin> set (map outfile (build_requests (fst (main argv pkg ym yo e))))"
    unfolding reqs requested_outfiles using versioned_outfile_differs by simp
  from a c show ?thesis by blast
qed

theorem one_shot_targets_independent_of_target_flag_witness:
  "\<not> isWatch versioned_argv \<and> \<not> isWatch sample_argv
   \<and> targetFormat versioned_argv = Some (js ''umd-versioned'')
   \<and> map target_of (build_requests (fst (main versioned_argv fixture_package 2026 2026 sample_env)))
     = map target_of (build_requests (fst (main sample_argv fixture_package 2026 2026 sample_env)))
   \<and> Some (js ''dist/accessibility-widget-1.2.3.umd.js'')
       \<notin> set (map outfile
             (build_requests (fst (main versioned_argv fixture_package 2026 2026 sample_env))))"
proof -
  note inst = one_shot_targets_independent_of_target_flag
    [OF isWatch_samples(2) isWatch_samples(1), of fixture_package 2026 2026 sample_env sample_env]
  have v: "js ''dist/accessibility-widget-'' @ template (version fixture_package) @ js ''.umd.js''
        = js ''dist/accessibility-widget-1.2.3.umd.js''"
    by (simp add: fixture_package_def template_def js_def)
  have t: "targetFormat versioned_argv = Some (js ''umd-versioned'')"
    by (simp add: targetFormat_def targetArg_samples) (simp add: js_def)
  from inst t isWatch_samples(1,2) show ?thesis
    unfolding v by blast
qed

text \<open>
  Claim C9. Whatever the command line is, the hook that the configuration installs for a path
  ending in \<^verbatim>\<open>.css\<close> returns what \<^verbatim>\<open>esbuild.transform\<close> answers for the text of the file under
  \<^verbatim>\<open>{ loader: 'css', minify: true }\<close>, and that is the only call of the transform it makes; while
  \<^verbatim>\<open>minify\<close> of the configuration, and of every options object handed to the bundler, is true
  exactly when \<^verbatim>\<open>--minify\<close> is an argument.
\<close>

theorem stylesheet_minification_ignores_minify_flag:
  assumes "baseConfig argv pkg ym yo = Inr cfg"
  shows "minify cfg = (js ''--minify'' \<in> set argv)
       \<and> (suffix (js ''.css'') path \<longrightarrow>
            run_onLoad (plugins cfg) e path
            = Some (ReadFileSync path
                    # (case readFileSync e path of
                         Inl _ \<Rightarrow> []
                       | Inr file \<Rightarrow>
                           [EsbuildTransform file
                              \<lparr>transform_loader = LoaderCss, transform_minify = True\<rparr>]),
                    (case readFileSync e path of
                       Inl err \<Rightarrow> Inl err
                     | Inr file \<Rightarrow>
                         (case esbuild_transform e file
                                 \<lparr>transform_loader = LoaderCss, transform_minify = True\<rparr> of
                            Inl err \<Rightarrow> Inl err
                          | Inr code \<Rightarrow>
                              Inr \<lparr>result_loader = LoaderText, contents = code\<rparr>))))
       \<and> (\<forall>opts \<in> set (build_requests (fst (main argv pkg ym yo e))
                        @ context_requests (fst (main argv pkg ym yo e))).
            minify opts = (js ''--minify'' \<in> set argv)
            \<and> plugins opts = [CSSMinifyPlugin, HTMLMinifyPlugin])"
proof -
  have m: "minify cfg = (js ''--minify'' \<in> set argv)"
    using assms by (simp add: baseConfig_minify isMinify_def)
  have p: "plugins cfg = [CSSMinifyPlugin, HTMLMinifyPlugin]"
    using assms by (rule baseConfig_plugins)
  have c: "suffix (js ''.css'') path \<longrightarrow>
            run_onLoad (plugins cfg) e path
            = Some (ReadFileSync path
                    # (case readFileSync e path of
                         Inl _ \<Rightarrow> []
                       | Inr file \<Rightarrow>
                           [EsbuildTransform file
                              \<lparr>transform_loader = LoaderCss, transform_minify = True\<rparr>]),
                    (case readFileSync e path of
                       Inl err \<Rightarrow> Inl err
                     | Inr file \<Rightarrow>
                         (case esbuild_transform e file
                                 \<lparr>transform_loader = LoaderCss, transform_minify = True\<rparr> of
                            Inl err \<Rightarrow> Inl err
                          | Inr code \<Rightarrow>
                              Inr \<lparr>result_loader = LoaderText, contents = code\<rparr>)))"
    by (simp add: p css_onLoad_def css_transform_options_def split: sum.splits)
  have r: "\<forall>opts \<in> set (build_requests (fst (main argv pkg ym yo e))
                        @ context_requests (fst (main argv pkg ym yo e))).
            minify opts = (js ''--minify'' \<in> set argv)
            \<and> plugins opts = [CSSMinifyPlugin, HTMLMinifyPlugin]"
    using main_requests(1) [OF assms, of e] spread_keeps_base(1,2) m p by fastforce
  from m c r show ?thesis
    by blast
qed

theorem stylesheet_minification_ignores_minify_flag_witness:
  "js ''--minify'' \<notin> set sample_argv \<and> js ''--minify'' \<in> set minify_argv
   \<and> suffix (js ''.css'') (js ''widget.css'')
   \<and> (\<exists>cfg. baseConfig sample_argv fixture_package 2026 2026 = Inr cfg \<and> \<not> minify cfg
         \<and> run_onLoad (plugins cfg) sample_env (js ''widget.css'')
           = Some ([ReadFileSync (js ''widget.css''),
                    EsbuildTransform (js ''a { }'')
                      \<lparr>transform_loader = LoaderCss, transform_minify = True\<rparr>],
                   Inr \<lparr>result_loader = LoaderText, contents = js ''a{}''\<rparr>))
   \<and> (\<exists>cfg. baseConfig minify_argv fixture_package 2026 2026 = Inr cfg \<and> minify cfg
         \<and> run_onLoad (plugins cfg) sample_env (js ''widget.css'')
           = Some ([ReadFileSync (js ''widget.css''),
                    EsbuildTransform (js ''a { }'')
                      \<lparr>transform_loader = LoaderCss, transform_minify = True\<rparr>],
                   Inr \<lparr>result_loader = LoaderText, contents = js ''a{}''\<rparr>))
   \<and> map minify (build_requests (fst (main sample_argv fixture_package 2026 2026 sample_env)))
     = [False, False, False]
   \<and> map minify (build_requests (fst (main minify_argv fixture_package 2026 2026 sample_env)))
     = [True, True, True]"
proof -
  obtain cfg where c: "baseConfig sample_argv fixture_package 2026 2026 = Inr cfg"
    using baseConfig_fixture by blast
  obtain cfg' where c': "baseConfig minify_argv fixture_package 2026 2026 = Inr cfg'"
    using baseConfig_fixture by blast
  note inst = stylesheet_minification_ignores_minify_flag
    [OF c, of "js ''widget.css''" sample_env]
  note inst' = stylesheet_minification_ignores_minify_flag
    [OF c', of "js ''widget.css''" sample_env]
  note n = samples_more(4)
  note y = samples_more(3)
  have s: "suffix (js ''.css'') (js ''widget.css'')"
    by (simp add: js_def suffix_to_prefix)
  have r: "readFileSync sample_env (js ''widget.css'') = Inr (js ''a { }'')"
    by (simp add: sample_env_def)
  have t: "esbuild_transform sample_env (js ''a { }'')
         \<lparr>transform_loader = LoaderCss, transform_minify = True\<rparr> = Inr (js ''a{}'')"
    by (simp add: sample_env_def js_def trimmable_def is_white_space_def is_line_terminator_def)
  have h: "run_onLoad (plugins cfg) sample_env (js ''widget.css'')
           = Some ([ReadFileSync (js ''widget.css''),
                    EsbuildTransform (js ''a { }'')
                      \<lparr>transform_loader = LoaderCss, transform_minify = True\<rparr>],
                   Inr \<lparr>result_loader = LoaderText, contents = js ''a{}''\<rparr>)"
    using inst s by (simp add: r t)
  have h': "run_onLoad (plugins cfg') sample_env (js ''widget.css'')
           = Some ([ReadFileSync (js ''widget.css''),
                    EsbuildTransform (js ''a { }'')
                      \<lparr>transform_loader = LoaderCss, transform_minify = True\<rparr>],
                   Inr \<lparr>result_loader = LoaderText, contents = js ''a{}''\<rparr>)"
    using inst' s by (simp add: r t)
  have mc: "\<not> minify cfg"
    using inst n by blast
  have mc': "minify cfg'"
    using inst' y by blast
  have "length (map minify
      (build_requests (fst (main sample_argv fixture_package 2026 2026 sample_env)))) = 3"
    using isWatch_samples(1) c by (simp add: one_shot_three_requests)
  moreover have "\<forall>x \<in> set (map minify
      (build_requests (fst (main sample_argv fixture_package 2026 2026 sample_env)))). x = False"
    using inst n by auto
  ultimately have m: "map minify
      (build_requests (fst (main sample_argv fixture_package 2026 2026 sample_env)))
     = [False, False, False]"
    by (rule three_equal)
  have "length (map minify
      (build_requests (fst (main minify_argv fixture_package 2026 2026 sample_env)))) = 3"
    using samples_more(1) c' by (simp add: one_shot_three_requests)
  moreover have "\<forall>x \<in> set (map minify
      (build_requests (fst (main minify_argv fixture_package 2026 2026 sample_env)))). x = True"
    using inst' y by auto
  ultimately have m': "map minify
      (build_requests (fst (main minify_argv fixture_package 2026 2026 sample_env)))
     = [True, True, True]"
    by (rule three_equal)
  from n y s c c' mc mc' h h' m m' show ?thesis
    by blast
qed


section \<open>Watch mode\<close>



text \<open>
  Claim C10, as stated, says that every name other than the four target names leaves
  \<^verbatim>\<open>buildTarget\<close> \<^verbatim>\<open>undefined\<close>. The name \<^verbatim>\<open>toString\<close> is none of the four, and \<^verbatim>\<open>targets['toString']\<close>
  is the function inherited from \<^verbatim>\<open>Object.prototype\<close>: \<^verbatim>\<open>buildTarget\<close> is not \<^verbatim>\<open>undefined\<close>, and
  reading its \<^verbatim>\<open>outfile\<close> does not throw.
\<close>

theorem inherited_target_name_counterexample:
  "isWatch inherited_argv
   \<and> targetFormat inherited_argv = Some (js ''toString'')
   \<and> js ''toString'' \<notin> {js ''esm'', js ''cjs'', js ''umd'', js ''umd-versioned''}
   \<and> buildTarget inherited_argv fixture_package \<noteq> Undefined
   \<and> property_outfile (buildTarget inherited_argv fixture_package) = Inr None"
proof -
  have n: "js ''toString'' = takeWhile (\<lambda>c. c \<noteq> of_char CHR ''='') (js ''toString'')"
    by (simp add: js_def)
  have tf: "targetFormat inherited_argv = Some (js ''toString'')"
    using targetFormat_flag [OF targetArg_samples(5)] n by simp
  have k: "js ''toString'' \<notin> {js ''esm'', js ''cjs'', js ''umd'', js ''umd-versioned''}"
    by (simp add: js_def)
  have m: "map_of (targets fixture_package) (js ''toString'') = None"
    by (simp add: targets_def js_def)
  have p: "js ''toString'' \<in> set object_prototype_keys"
    by (simp add: object_prototype_keys_def)
  have bt: "buildTarget inherited_argv fixture_package = Inherited"
    by (simp add: buildTarget_def tf template_def get_property_def m p)
  from isWatch_samples(5) tf k show ?thesis
    by (simp add: bt)
qed

text \<open>
  Claim C10, amended. In a watch run, a target name that is neither one of the four target
  names nor the name of a property inherited from \<^verbatim>\<open>Object.prototype\<close> leaves \<^verbatim>\<open>buildTarget\<close>
  \<^verbatim>\<open>undefined\<close>; the process then exits with status 1, whatever the bundler answers, and neither
  builds nor watches the \<^verbatim>\<open>umd\<close> target instead.
\<close>

theorem unknown_target_in_watch_mode_exits_with_1:
  assumes "isWatch argv"
    and "targetArg argv = Some (js ''--target='' @ rest)"
    and "name = takeWhile (\<lambda>c. c \<noteq> of_char CHR ''='') rest"
    and "name \<notin> {js ''esm'', js ''cjs'', js ''umd'', js ''umd-versioned''}"
    and "name \<notin> set object_prototype_keys"
  shows "buildTarget argv pkg = Undefined
       \<and> snd (main argv pkg ym yo e) = Exited 1
       \<and> build_requests (fst (main argv pkg ym yo e)) = []
       \<and> Some (js ''dist/accessibility-widget.umd.js'')
           \<notin> set (map outfile (context_requests (fst (main argv pkg ym yo e))))"
proof -
  have tf: "targetFormat argv = Some name"
    using assms(2,3) by (simp add: targetFormat_flag)
  have "map_of (targets pkg) name = None"
    using assms(4) by (simp add: targets_def)
  then have bt: "buildTarget argv pkg = Undefined"
    using assms(5) by (simp add: buildTarget_def tf template_def get_property_def)
  show ?thesis
  proof (cases "baseConfig argv pkg ym yo")
    case (Inl err)
    then show ?thesis
      by (simp add: bt main_not_configured)
  next
    case (Inr cfg)
    obtain err where "snd (build_watch cfg Undefined e) = Inl err"
      using build_watch_undefined by blast
    then have x: "snd (main argv pkg ym yo e) = Exited 1"
      using assms(1) Inr by (simp add: main_watch_outcome bt)
    have b: "build_requests (fst (main argv pkg ym yo e)) = []"
      using assms(1) Inr by (rule main_watch_calls)
    have "outfile cfg = None"
      using Inr by (rule baseConfig_no_target)
    then have c: "Some (js ''dist/accessibility-widget.umd.js'')
           \<notin> set (map outfile (context_requests (fst (main argv pkg ym yo e))))"
      using assms(1) Inr by (simp add: main_watch_calls build_watch_calls bt)
    from bt x b c show ?thesis
      by blast
  qed
qed

theorem unknown_target_in_watch_mode_exits_with_1_witness:
  "isWatch unknown_argv
   \<and> targetArg unknown_argv = Some (js ''--target='' @ js ''es6'')
   \<and> js ''es6'' = takeWhile (\<lambda>c. c \<noteq> of_char CHR ''='') (js ''es6'')
   \<and> js ''es6'' \<notin> {js ''esm'', js ''cjs'', js ''umd'', js ''umd-versioned''}
   \<and> js ''es6'' \<notin> set object_prototype_keys
   \<and> buildTarget unknown_argv fixture_package = Undefined
   \<and> snd (main unknown_argv fixture_package 2026 2026 sample_env) = Exited 1"
proof -
  have n: "js ''es6'' = takeWhile (\<lambda>c. c \<noteq> of_char CHR ''='') (js ''es6'')"
    by (simp add: js_def)
  have k: "js ''es6'' \<notin> {js ''esm'', js ''cjs'', js ''umd'', js ''umd-versioned''}"
    by (simp add: js_def)
  have p: "js ''es6'' \<notin> set object_prototype_keys"
    by (simp add: object_prototype_keys_def js_def)
  from unknown_target_in_watch_mode_exits_with_1
    [OF isWatch_samples(4) targetArg_samples(4) n k p, of fixture_package 2026 2026 sample_env]
    isWatch_samples(4) targetArg_samples(4) n k p
  show ?thesis
    by blast
qed

end
